theory Spec2Isabelle
  imports Complex_Main
begin

section \<open>Text primitives\<close>

text \<open>
  Python strings are modelled as \<^typ>\<open>string\<close>; a character below 128 is the ASCII
  code point of the same number.  Letter case, white space and word characters are
  those of ASCII: a character from 128 on has no case and is neither white space nor a
  word character.  Python floats are modelled as exact reals: the constants of the
  scorer are the decimal literals of the source, and rounding is not modelled.
\<close>

definition newline :: char where
  "newline = CHR 0x0A"

definition is_upper :: "char \<Rightarrow> bool" where
  "is_upper c = (let n = (of_char c :: nat) in 65 \<le> n \<and> n \<le> 90)"

definition is_lower :: "char \<Rightarrow> bool" where
  "is_lower c = (let n = (of_char c :: nat) in 97 \<le> n \<and> n \<le> 122)"

definition is_digit :: "char \<Rightarrow> bool" where
  "is_digit c = (let n = (of_char c :: nat) in 48 \<le> n \<and> n \<le> 57)"

text \<open>\<^verbatim>\<open>str.isspace\<close> on one character: tab, line feed, vertical tab, form feed,
  carriage return, the four separators 28..31, and the blank.\<close>

definition is_space :: "char \<Rightarrow> bool" where
  "is_space c = (let n = (of_char c :: nat) in (9 \<le> n \<and> n \<le> 13) \<or> (28 \<le> n \<and> n \<le> 32))"

text \<open>The class \<^verbatim>\<open>\w\<close>: letters, digits and the underscore.\<close>

definition is_word :: "char \<Rightarrow> bool" where
  "is_word c = (is_upper c \<or> is_lower c \<or> is_digit c \<or> c = CHR ''_'')"

definition lower_char :: "char \<Rightarrow> char" where
  "lower_char c = (if is_upper c then char_of ((of_char c :: nat) + 32) else c)"

definition upper_char :: "char \<Rightarrow> char" where
  "upper_char c = (if is_lower c then char_of ((of_char c :: nat) - 32) else c)"

definition lower :: "string \<Rightarrow> string" where
  "lower s = map lower_char s"

definition upper :: "string \<Rightarrow> string" where
  "upper s = map upper_char s"

text \<open>\<^verbatim>\<open>needle in hay\<close> on strings.\<close>

fun str_in :: "string \<Rightarrow> string \<Rightarrow> bool" where
  "str_in needle [] = (needle = [])"
| "str_in needle (c # cs) = (take (length needle) (c # cs) = needle \<or> str_in needle cs)"

definition startswith :: "string \<Rightarrow> string \<Rightarrow> bool" where
  "startswith s p = (take (length p) s = p)"

definition lstrip :: "string \<Rightarrow> string" where
  "lstrip s = dropWhile is_space s"

definition strip :: "string \<Rightarrow> string" where
  "strip s = rev (dropWhile is_space (rev (dropWhile is_space s)))"

text \<open>\<^verbatim>\<open>s.split('\n')\<close>: never empty; the empty string splits into one empty line.\<close>

fun split_nl :: "string \<Rightarrow> string list" where
  "split_nl [] = [[]]"
| "split_nl (c # cs) =
     (if c = newline then [] # split_nl cs
      else (case split_nl cs of [] \<Rightarrow> [[c]] | l # ls \<Rightarrow> (c # l) # ls))"

text \<open>\<^verbatim>\<open>s.count('\n')\<close>.\<close>

definition count_nl :: "string \<Rightarrow> nat" where
  "count_nl s = length (filter (\<lambda>c. c = newline) s)"

section \<open>Regular expressions of the rule tables\<close>

text \<open>
  The patterns of the program use literals, the classes \<^verbatim>\<open>.\<close>, \<^verbatim>\<open>\s\<close>, \<^verbatim>\<open>\w\<close>,
  bracket classes, greedy repetition of a single class, alternation and the word
  boundary.  The matcher returns the states after every way of matching, in the order
  in which a backtracking engine tries them, so that the head of the list is the match
  Python reports.  A state is the character before the position (for the word
  boundary) and the rest of the text.
\<close>

datatype cclass =
    Lit char
  | AnyChar
  | Space
  | Word
  | OneOf "char list"
  | NoneOf "char list"

datatype regex =
    Eps
  | Ch cclass
  | Rep cclass nat "nat option"
  | Seq regex regex
  | Alt regex regex
  | WordB

fun cmatch :: "bool \<Rightarrow> cclass \<Rightarrow> char \<Rightarrow> bool" where
  "cmatch ic (Lit a) c = (if ic then lower_char a = lower_char c else a = c)"
| "cmatch ic AnyChar c = (c \<noteq> newline)"
| "cmatch ic Space c = is_space c"
| "cmatch ic Word c = is_word c"
| "cmatch ic (OneOf cs) c =
     (if ic then lower_char c \<in> set (map lower_char cs) else c \<in> set cs)"
| "cmatch ic (NoneOf cs) c =
     (if ic then lower_char c \<notin> set (map lower_char cs) else c \<notin> set cs)"

type_synonym mstate = "char option \<times> string"

text \<open>The longest run of characters of a class at the head of the text, at most
  \<open>hi\<close> long when a bound is given.\<close>

fun run_len :: "bool \<Rightarrow> cclass \<Rightarrow> nat option \<Rightarrow> string \<Rightarrow> nat" where
  "run_len ic cls hi [] = 0"
| "run_len ic cls hi (c # cs) =
     (if hi = Some 0 \<or> \<not> cmatch ic cls c then 0
      else Suc (run_len ic cls (map_option (\<lambda>h. h - 1) hi) cs))"

definition advance :: "nat \<Rightarrow> mstate \<Rightarrow> mstate" where
  "advance k st = (if k = 0 then st else (Some (snd st ! (k - 1)), drop k (snd st)))"

definition word_before :: "mstate \<Rightarrow> bool" where
  "word_before st = (case fst st of None \<Rightarrow> False | Some c \<Rightarrow> is_word c)"

definition word_after :: "mstate \<Rightarrow> bool" where
  "word_after st = (case snd st of [] \<Rightarrow> False | c # _ \<Rightarrow> is_word c)"

fun mt :: "bool \<Rightarrow> regex \<Rightarrow> mstate \<Rightarrow> mstate list" where
  "mt ic Eps st = [st]"
| "mt ic (Ch cls) st =
     (case snd st of
        [] \<Rightarrow> []
      | c # cs \<Rightarrow> if cmatch ic cls c then [(Some c, cs)] else [])"
| "mt ic (Rep cls lo hi) st =
     map (\<lambda>k. advance k st) (rev [lo ..< Suc (run_len ic cls hi (snd st))])"
| "mt ic (Seq a b) st = concat (map (mt ic b) (mt ic a st))"
| "mt ic (Alt a b) st = mt ic a st @ mt ic b st"
| "mt ic WordB st = (if word_before st \<noteq> word_after st then [st] else [])"

definition Str :: "string \<Rightarrow> regex" where
  "Str s = foldr (\<lambda>c r. Seq (Ch (Lit c)) r) s Eps"

definition seqs :: "regex list \<Rightarrow> regex" where
  "seqs rs = foldr Seq rs Eps"

abbreviation star :: "cclass \<Rightarrow> regex" where
  "star cls \<equiv> Rep cls 0 None"

abbreviation plus :: "cclass \<Rightarrow> regex" where
  "plus cls \<equiv> Rep cls 1 None"

abbreviation at_least :: "nat \<Rightarrow> cclass \<Rightarrow> regex" where
  "at_least n cls \<equiv> Rep cls n None"

abbreviation opt :: "cclass \<Rightarrow> regex" where
  "opt cls \<equiv> Rep cls 0 (Some 1)"

text \<open>A compiled pattern: the IGNORECASE flag and the expression.\<close>

type_synonym pattern = "bool \<times> regex"

text \<open>\<^verbatim>\<open>re.search(pattern, text)\<close> as a truth value: some position starts a match.\<close>

fun search_from :: "pattern \<Rightarrow> char option \<Rightarrow> string \<Rightarrow> bool" where
  "search_from pat p [] = (mt (fst pat) (snd pat) (p, []) \<noteq> [])"
| "search_from pat p (c # cs) =
     (mt (fst pat) (snd pat) (p, c # cs) \<noteq> [] \<or> search_from pat (Some c) cs)"

definition re_search :: "pattern \<Rightarrow> string \<Rightarrow> bool" where
  "re_search pat s = search_from pat None s"

text \<open>
  \<^verbatim>\<open>re.finditer(pattern, text)\<close>: the matches from left to right, none overlapping,
  each as (start index, matched text).  \<open>skip\<close> counts the characters still covered
  by the previous match.  No pattern of the program matches the empty string, so the
  treatment of an empty match (reported, then the scan moves one character on) is
  never exercised.
\<close>

fun finditer_from :: "pattern \<Rightarrow> nat \<Rightarrow> nat \<Rightarrow> char option \<Rightarrow> string \<Rightarrow> (nat \<times> string) list" where
  "finditer_from pat i skip p [] =
     (if skip = 0 \<and> mt (fst pat) (snd pat) (p, []) \<noteq> [] then [(i, [])] else [])"
| "finditer_from pat i skip p (c # cs) =
     (if 0 < skip then finditer_from pat (Suc i) (skip - 1) (Some c) cs
      else (case mt (fst pat) (snd pat) (p, c # cs) of
              [] \<Rightarrow> finditer_from pat (Suc i) 0 (Some c) cs
            | st # _ \<Rightarrow>
                (let n = length (c # cs) - length (snd st)
                 in (i, take n (c # cs)) # finditer_from pat (Suc i) (n - 1) (Some c) cs)))"

definition finditer :: "pattern \<Rightarrow> string \<Rightarrow> (nat \<times> string) list" where
  "finditer pat s = finditer_from pat 0 0 None s"

definition findall_count :: "pattern \<Rightarrow> string \<Rightarrow> nat" where
  "findall_count pat s = length (finditer pat s)"

section \<open>The heuristic predictor (ai_enhancement.py)\<close>

definition dquote :: char where
  "dquote = CHR 0x22"

definition squote :: char where
  "squote = CHR 0x27"

definition quotes :: "char list" where
  "quotes = [dquote, squote]"

text \<open>\<^verbatim>\<open>d.get(key, default)\<close> on a dictionary kept as an association list in
  insertion order.\<close>

definition dict_get :: "('k \<times> 'v) list \<Rightarrow> 'k \<Rightarrow> 'v \<Rightarrow> 'v" where
  "dict_get d k dflt = (case map_of d k of None \<Rightarrow> dflt | Some v \<Rightarrow> v)"

text \<open>The patterns of \<^verbatim>\<open>vulnerability_patterns\<close>, each searched with IGNORECASE.\<close>

definition vulnerability_patterns :: "(string \<times> regex list) list" where
  "vulnerability_patterns =
    [(''sql_injection'',
       [seqs [Str ''execute'', star Space, Ch (Lit (CHR ''('')), star Space, Ch (OneOf quotes),
              star AnyChar, Ch (Lit (CHR ''%'')), star AnyChar, Ch (OneOf quotes)],
        seqs [Str ''query'', star Space, Ch (Lit (CHR ''('')), star Space, Ch (OneOf quotes),
              star AnyChar, Ch (Lit (CHR ''+'')), star AnyChar, Ch (OneOf quotes)],
        seqs [Str ''cursor.execute'', star Space, Ch (Lit (CHR ''('')), star Space,
              Ch (OneOf quotes), star AnyChar, Ch (Lit (CHR ''%'')), star AnyChar,
              Ch (OneOf quotes)]]),
     (''xss'',
       [seqs [Str ''innerHTML'', star Space, Ch (Lit (CHR ''='')), star Space, star AnyChar,
              Ch (Lit (CHR ''+''))],
        seqs [Str ''document.write'', star Space, Ch (Lit (CHR ''('')), star Space,
              star AnyChar, Ch (Lit (CHR ''+''))],
        seqs [Str ''eval'', star Space, Ch (Lit (CHR ''('')), star Space, star AnyChar,
              Str ''input'']]),
     (''hardcoded_secrets'',
       [seqs [Str ''password'', star Space, Ch (Lit (CHR ''='')), star Space,
              Ch (OneOf quotes), at_least 8 (NoneOf quotes), Ch (OneOf quotes)],
        seqs [Str ''api_key'', star Space, Ch (Lit (CHR ''='')), star Space,
              Ch (OneOf quotes), at_least 20 (NoneOf quotes), Ch (OneOf quotes)],
        seqs [Str ''secret'', star Space, Ch (Lit (CHR ''='')), star Space,
              Ch (OneOf quotes), at_least 16 (NoneOf quotes), Ch (OneOf quotes)]]),
     (''buffer_overflow'',
       [seqs [Str ''strcpy'', star Space, Ch (Lit (CHR ''(''))],
        seqs [Str ''strcat'', star Space, Ch (Lit (CHR ''(''))],
        seqs [Str ''sprintf'', star Space, Ch (Lit (CHR ''(''))]]),
     (''race_condition'',
       [Str ''threading.'',
        Str ''multiprocessing.'',
        seqs [Str ''async'', plus Space, Str ''def'']])]"

definition severity_weights :: "(string \<times> real) list" where
  "severity_weights =
    [(''sql_injection'', 0.9),
     (''xss'', 0.8),
     (''hardcoded_secrets'', 0.85),
     (''buffer_overflow'', 0.95),
     (''race_condition'', 0.7)]"

definition calculate_severity :: "string \<Rightarrow> string \<Rightarrow> real" where
  "calculate_severity vuln_type match =
    (let base_severity = dict_get severity_weights vuln_type 0.5;
         base_severity =
           (if str_in ''user'' (lower match) \<or> str_in ''input'' (lower match)
            then base_severity + 0.1 else base_severity);
         base_severity =
           (if str_in ''admin'' (lower match) \<or> str_in ''root'' (lower match)
            then base_severity + 0.15 else base_severity)
     in min base_severity 1.0)"

definition confidence_map :: "(string \<times> real) list" where
  "confidence_map =
    [(''sql_injection'', 0.8),
     (''xss'', 0.75),
     (''hardcoded_secrets'', 0.9),
     (''buffer_overflow'', 0.85),
     (''race_condition'', 0.6)]"

definition calculate_confidence :: "string \<Rightarrow> string \<Rightarrow> real" where
  "calculate_confidence vuln_type match = dict_get confidence_map vuln_type 0.5"

definition suggestions :: "(string \<times> string) list" where
  "suggestions =
    [(''sql_injection'',
        ''Use parameterized queries or prepared statements instead of string concatenation''),
     (''xss'', ''Sanitize user input and use safe DOM manipulation methods''),
     (''hardcoded_secrets'',
        ''Move secrets to environment variables or secure configuration files''),
     (''buffer_overflow'', ''Use safer string functions like strncpy, strncat, or snprintf''),
     (''race_condition'',
        ''Use proper synchronization mechanisms like locks or atomic operations'')]"

definition get_fix_suggestion :: "string \<Rightarrow> string" where
  "get_fix_suggestion vuln_type =
     dict_get suggestions vuln_type ''Review code for potential security issues''"

record prediction =
  p_type :: string
  p_line :: nat
  p_severity :: real
  p_confidence :: real
  p_suggestion :: string
  p_match :: string

text \<open>The body of the innermost loop: one prediction per match.\<close>

definition make_prediction :: "string \<Rightarrow> string \<Rightarrow> nat \<times> string \<Rightarrow> prediction" where
  "make_prediction code vuln_type m =
     \<lparr>p_type = vuln_type,
      p_line = count_nl (take (fst m) code) + 1,
      p_severity = calculate_severity vuln_type (snd m),
      p_confidence = calculate_confidence vuln_type (snd m),
      p_suggestion = get_fix_suggestion vuln_type,
      p_match = snd m\<rparr>"

text \<open>The matches of one pattern, in the order \<^verbatim>\<open>re.finditer\<close> yields them.\<close>

definition predict_pattern :: "string \<Rightarrow> string \<Rightarrow> regex \<Rightarrow> prediction list" where
  "predict_pattern code vuln_type pat =
     map (make_prediction code vuln_type) (finditer (True, pat) code)"

text \<open>The three nested loops: categories in table order, the patterns of a category
  in order, the matches of a pattern from left to right.  \<open>language\<close> is not read.\<close>

definition predict_vulnerabilities :: "string \<Rightarrow> string \<Rightarrow> prediction list" where
  "predict_vulnerabilities code language =
     concat (map (\<lambda>(vuln_type, patterns).
                    concat (map (predict_pattern code vuln_type) patterns))
                 vulnerability_patterns)"

subsection \<open>Complexity metrics\<close>

definition decision_keywords :: "string list" where
  "decision_keywords = [''if'', ''elif'', ''while'', ''for'', ''except'', ''and'', ''or'']"

definition calculate_cyclomatic_complexity :: "string \<Rightarrow> nat" where
  "calculate_cyclomatic_complexity code =
     foldl (\<lambda>complexity keyword.
              complexity + findall_count (False, Seq WordB (Seq (Str keyword) WordB)) code)
           1 decision_keywords"

definition calculate_max_nesting_depth :: "string \<Rightarrow> nat" where
  "calculate_max_nesting_depth code =
     foldl (\<lambda>max_depth line.
              (let stripped = lstrip line
               in if stripped \<noteq> [] \<and> \<not> startswith stripped ''#''
                  then max max_depth ((length line - length stripped) div 4)
                  else max_depth))
           0 (split_nl code)"

record metrics =
  total_lines :: nat
  code_lines :: nat
  comment_lines :: nat
  cyclomatic_complexity :: nat
  nesting_depth :: nat
  function_count :: nat
  class_count :: nat

definition analyze_code_complexity :: "string \<Rightarrow> metrics" where
  "analyze_code_complexity code =
    (let lines = split_nl code
     in \<lparr>total_lines = length lines,
         code_lines =
           length (filter (\<lambda>line. strip line \<noteq> [] \<and> \<not> startswith (strip line) ''#'') lines),
         comment_lines = length (filter (\<lambda>line. startswith (strip line) ''#'') lines),
         cyclomatic_complexity = calculate_cyclomatic_complexity code,
         nesting_depth = calculate_max_nesting_depth code,
         function_count = findall_count (False, seqs [Str ''def'', plus Space, plus Word]) code,
         class_count = findall_count (False, seqs [Str ''class'', plus Space, plus Word]) code\<rparr>)"

section \<open>The built-in scanner (main.py)\<close>

text \<open>A pattern that starts with \<^verbatim>\<open>(?i)\<close> ignores case; the others do not.\<close>

definition patterns :: "(string \<times> (pattern \<times> string) list) list" where
  "patterns =
    [(''SQL Injection'',
       [((True, seqs [Alt (Str ''SELECT'') (Alt (Str ''INSERT'') (Alt (Str ''UPDATE'') (Str ''DELETE''))),
                      star AnyChar, Ch (Lit (CHR ''+'')), star AnyChar]),
         ''String concatenation in SQL query''),
        ((True, seqs [Str ''1'', star Space, Str ''OR'', star Space, Str ''1'', star Space,
                      Str ''='', star Space, Str ''1'']),
         ''Classic SQL injection pattern''),
        ((True, seqs [Str ''UNION'', plus Space, Str ''SELECT'']),
         ''UNION-based SQL injection''),
        ((True, seqs [Str '';'', star Space, Str ''DROP'', plus Space, Str ''TABLE'']),
         ''SQL injection with DROP statement'')]),
     (''Cross-Site Scripting (XSS)'',
       [((False, seqs [Str ''innerHTML'', star Space, Str ''='', star Space,
                       star (NoneOf '';''), Str ''+'']),
         ''Unsafe innerHTML assignment''),
        ((False, seqs [Str ''document.write'', star Space, Str ''('', star (NoneOf '')''),
                       Str ''+'']),
         ''Unsafe document.write usage''),
        ((False, seqs [Str ''<script'', star (NoneOf ''>''), Str ''>'', star (NoneOf ''<''),
                       Str ''</script>'']),
         ''Inline script tag'')]),
     (''Command Injection'',
       [((False, seqs [Str ''os.system'', star Space, Str ''('', star (NoneOf '')''), Str ''+'']),
         ''Command injection via os.system''),
        ((False, seqs [Str ''subprocess.'', star (NoneOf ''(''), Str ''('', star (NoneOf '')''),
                       Str ''shell'', star Space, Str ''='', star Space, Str ''True'']),
         ''Shell injection risk''),
        ((False, seqs [Str ''eval'', star Space, Str ''('', star (NoneOf '')''), Str ''input'']),
         ''Code injection via eval'')]),
     (''Path Traversal'',
       [((False, Str ''../''),
         ''Directory traversal pattern''),
        ((False, seqs [Str ''open'', star Space, Str ''('', star (NoneOf '')''), Str ''+'',
                       star (NoneOf '')''), Ch (OneOf quotes), star (NoneOf quotes),
                       Ch (OneOf quotes)]),
         ''Unsafe file path construction'')]),
     (''Hardcoded Credentials'',
       [((True, seqs [Alt (Str ''password'') (Alt (Str ''pwd'') (Str ''pass'')),
                      star Space, Str ''='', star Space, Ch (OneOf quotes),
                      at_least 3 (NoneOf quotes), Ch (OneOf quotes)]),
         ''Hardcoded password''),
        ((True, seqs [Alt (Str ''api_key'') (Alt (Str ''apikey'') (Str ''secret'')),
                      star Space, Str ''='', star Space, Ch (OneOf quotes),
                      at_least 10 (NoneOf quotes), Ch (OneOf quotes)]),
         ''Hardcoded API key'')]),
     (''Weak Cryptography'',
       [((False, seqs [Str ''hashlib.md5'', star Space, Str ''('']),
         ''Weak MD5 hash usage''),
        ((False, seqs [Str ''hashlib.sha1'', star Space, Str ''('']),
         ''Weak SHA1 hash usage''),
        ((True, Alt (Str ''DES'') (Str ''RC4'')),
         ''Weak encryption algorithm'')]),
     (''Unsafe Deserialization'',
       [((False, seqs [Str ''pickle.load'', opt (Lit (CHR ''s'')), star Space, Str ''('']),
         ''Unsafe pickle deserialization''),
        ((False, seqs [Str ''yaml.load'', star Space, Str ''('', star (NoneOf '')''),
                       Str ''Loader'']),
         ''Unsafe YAML loading'')]),
     (''Information Disclosure'',
       [((True, seqs [Str ''debug'', star Space, Str ''='', star Space, Str ''True'']),
         ''Debug mode enabled''),
        ((False, seqs [Str ''print'', star Space, Str ''('', star (NoneOf '')''),
                       Str ''password'']),
         ''Password in debug output''),
        ((False, seqs [Str ''console.log'', star Space, Str ''('', star (NoneOf '')''),
                       Str ''token'']),
         ''Token in console output'')])]"

definition critical_types :: "string list" where
  "critical_types =
     [''SQL Injection'', ''Command Injection'', ''Unsafe Deserialization'',
      ''Hardcoded Credentials'']"

definition high_types :: "string list" where
  "high_types = [''Cross-Site Scripting (XSS)'', ''Path Traversal'']"

definition medium_types :: "string list" where
  "medium_types = [''Weak Cryptography'', ''Information Disclosure'']"

definition get_severity :: "string \<Rightarrow> string" where
  "get_severity vuln_type =
     (if vuln_type \<in> set critical_types then ''CRITICAL''
      else if vuln_type \<in> set high_types then ''HIGH''
      else if vuln_type \<in> set medium_types then ''MEDIUM''
      else ''LOW'')"

text \<open>One entry of the result list.  The built-in scanner sets no \<^verbatim>\<open>source\<close> key;
  the adapter of the external tool sets it to \<^verbatim>\<open>Semgrep\<close>.\<close>

record vulnerability =
  v_type :: string
  v_description :: string
  v_line :: int
  v_code :: string
  v_severity :: string
  v_file :: string
  v_source :: "string option"

text \<open>\<^verbatim>\<open>enumerate(lines, 1)\<close>.\<close>

definition enumerate1 :: "'a list \<Rightarrow> (nat \<times> 'a) list" where
  "enumerate1 xs = zip [1 ..< Suc (length xs)] xs"

text \<open>The innermost loop: the lines that one pattern matches, in line order.\<close>

definition scan_lines ::
  "string \<Rightarrow> string \<Rightarrow> pattern \<times> string \<Rightarrow> string list \<Rightarrow> vulnerability list" where
  "scan_lines file_path vuln_type pd lines =
     map (\<lambda>(line_num, line).
            \<lparr>v_type = vuln_type,
             v_description = snd pd,
             v_line = int line_num,
             v_code = strip line,
             v_severity = get_severity vuln_type,
             v_file = file_path,
             v_source = None\<rparr>)
         (filter (\<lambda>(line_num, line). re_search (fst pd) line) (enumerate1 lines))"

text \<open>
  \<open>content\<close> is what reading the file gives: \<open>None\<close> when opening or reading it
  raises, which the handler of the function turns into the empty result.
\<close>

definition detect_vulnerabilities :: "string \<Rightarrow> string option \<Rightarrow> vulnerability list" where
  "detect_vulnerabilities file_path content =
     (case content of
        None \<Rightarrow> []
      | Some text \<Rightarrow>
          (let lines = split_nl text
           in concat (map (\<lambda>(vuln_type, pattern_list).
                             concat (map (\<lambda>pd. scan_lines file_path vuln_type pd lines)
                                         pattern_list))
                          patterns)))"

section \<open>The external tool\<close>

text \<open>
  One entry of the tool's \<^verbatim>\<open>results\<close> list, in the shape the program reads:
  \<^verbatim>\<open>{check_id, start: {line}, extra: {message, severity, lines}}\<close>.  Every key may be
  absent (\<open>None\<close>); the program reads each with \<^verbatim>\<open>get\<close> and a default.
\<close>

record semgrep_start =
  s_line :: "int option"

record semgrep_extra =
  e_message :: "string option"
  e_severity :: "string option"
  e_lines :: "string option"

record semgrep_finding =
  f_check_id :: "string option"
  f_start :: "semgrep_start option"
  f_extra :: "semgrep_extra option"

text \<open>\<^verbatim>\<open>finding.get(outer, {}).get(key, default)\<close>.\<close>

definition nested_get :: "'a option \<Rightarrow> ('a \<Rightarrow> 'b option) \<Rightarrow> 'b \<Rightarrow> 'b" where
  "nested_get outer key dflt =
     (case outer of
        None \<Rightarrow> dflt
      | Some d \<Rightarrow> (case key d of None \<Rightarrow> dflt | Some v \<Rightarrow> v))"

text \<open>\<^verbatim>\<open>r.get('extra', {}).get('severity')\<close>: \<open>None\<close> when either key is absent.\<close>

definition reported_severity :: "semgrep_finding \<Rightarrow> string option" where
  "reported_severity r = (case f_extra r of None \<Rightarrow> None | Some e \<Rightarrow> e_severity e)"

text \<open>What \<^verbatim>\<open>json.loads(result.stdout)\<close> gives: an error, a value that is not an
  object, or an object with or without the key \<^verbatim>\<open>results\<close>.\<close>

datatype decoded =
    NotJson
  | NotAnObject
  | Object "semgrep_finding list option"

datatype exn =
    OSError
  | ModuleNotFoundError
  | YAMLError
  | FileNotFoundError
  | TimeoutExpired

text \<open>What \<^verbatim>\<open>subprocess.run\<close> does: it raises (the tool is missing, the timeout
  expires), or the process ends with a return code and its decoded output.\<close>

datatype proc_outcome =
    ProcRaised exn
  | Completed int decoded

subsection \<open>The adapter of main.py\<close>

definition normalize_finding :: "string \<Rightarrow> semgrep_finding \<Rightarrow> vulnerability" where
  "normalize_finding file_path finding =
     \<lparr>v_type = (case f_check_id finding of None \<Rightarrow> ''Unknown'' | Some c \<Rightarrow> c),
      v_description = nested_get (f_extra finding) e_message ''Semgrep finding'',
      v_line = nested_get (f_start finding) s_line 0,
      v_code = nested_get (f_extra finding) e_lines [],
      v_severity = upper (nested_get (f_extra finding) e_severity ''INFO''),
      v_file = file_path,
      v_source = Some ''Semgrep''\<rparr>"

definition run_semgrep_analysis :: "string \<Rightarrow> proc_outcome \<Rightarrow> vulnerability list" where
  "run_semgrep_analysis file_path outcome =
     (case outcome of
        ProcRaised e \<Rightarrow> []
      | Completed returncode out \<Rightarrow>
          if returncode = 0 then
            (case out of
               NotJson \<Rightarrow> []
             | NotAnObject \<Rightarrow> []
             | Object results \<Rightarrow>
                 map (normalize_finding file_path) (case results of None \<Rightarrow> [] | Some rs \<Rightarrow> rs))
          else [])"

definition severity_buckets :: "string list" where
  "severity_buckets = [''CRITICAL'', ''HIGH'', ''MEDIUM'', ''LOW'', ''INFO'']"

text \<open>The histogram: a severity that is not one of the five keys is not counted.\<close>

definition categorize_vulnerabilities :: "vulnerability list \<Rightarrow> (string \<times> nat) list" where
  "categorize_vulnerabilities vulnerabilities =
     foldl (\<lambda>categories vuln.
              if v_severity vuln \<in> set (map fst categories)
              then map (\<lambda>(k, n). if k = v_severity vuln then (k, n + 1) else (k, n)) categories
              else categories)
           (map (\<lambda>k. (k, 0)) severity_buckets) vulnerabilities"

subsection \<open>The risk score (ai_enhancement.py)\<close>

definition generate_risk_score :: "semgrep_finding list \<Rightarrow> prediction list \<Rightarrow> real" where
  "generate_risk_score semgrep_results ai_predictions =
    (let semgrep_score =
           real (length (filter (\<lambda>r. reported_severity r = Some ''ERROR'') semgrep_results)) * 0.3;
         semgrep_score = semgrep_score +
           real (length (filter (\<lambda>r. reported_severity r = Some ''WARNING'') semgrep_results)) * 0.2;
         semgrep_score = semgrep_score +
           real (length (filter (\<lambda>r. reported_severity r = Some ''INFO'') semgrep_results)) * 0.1;
         ai_score = sum_list (map (\<lambda>p. p_severity p * p_confidence p) ai_predictions);
         total_score = (semgrep_score + ai_score) / 10
     in min total_score 1.0)"

subsection \<open>The adapter with custom rules (enhanced_semgrep_rules.py)\<close>

text \<open>
  The platform as the adapter meets it on one call: the name the temporary file gets,
  whether creating it, importing the YAML library and writing the rules succeed, and
  what running the tool does.  The temporary directory is the set of its file names.
\<close>

record platform =
  tmp_name :: string
  tmp_create_ok :: bool
  yaml_import_ok :: bool
  yaml_dump_ok :: bool
  proc :: proc_outcome

text \<open>\<^verbatim>\<open>NamedTemporaryFile(delete=False)\<close>, then \<^verbatim>\<open>import yaml\<close>, then
  \<^verbatim>\<open>yaml.dump\<close> and \<^verbatim>\<open>close\<close>; nothing here catches an exception.\<close>

definition create_custom_rules_file :: "platform \<Rightarrow> string set \<Rightarrow> (exn + string) \<times> string set" where
  "create_custom_rules_file pf files =
     (if \<not> tmp_create_ok pf then (Inl OSError, files)
      else (let files = insert (tmp_name pf) files
            in if \<not> yaml_import_ok pf then (Inl ModuleNotFoundError, files)
               else if \<not> yaml_dump_ok pf then (Inl YAMLError, files)
               else (Inr (tmp_name pf), files)))"

text \<open>
  The rules file is created before the \<^verbatim>\<open>try\<close>; the handlers and the
  \<^verbatim>\<open>finally\<close> clause cover what follows.  \<^verbatim>\<open>os.unlink\<close> removes the name; its own
  failure is swallowed.
\<close>

definition analyze_with_custom_rules ::
  "platform \<Rightarrow> string \<Rightarrow> string set \<Rightarrow> (exn + semgrep_finding list) \<times> string set" where
  "analyze_with_custom_rules pf file_path files =
     (case create_custom_rules_file pf files of
        (Inl e, files) \<Rightarrow> (Inl e, files)
      | (Inr rules_file, files) \<Rightarrow>
          (let result =
                 (case proc pf of
                    ProcRaised e \<Rightarrow> []
                  | Completed returncode out \<Rightarrow>
                      if returncode = 0 then
                        (case out of
                           NotJson \<Rightarrow> []
                         | NotAnObject \<Rightarrow> []
                         | Object results \<Rightarrow> (case results of None \<Rightarrow> [] | Some rs \<Rightarrow> rs))
                      else [])
           in (Inr result, files - {rules_file})))"

section \<open>The scorer in the words of the specification\<close>

text \<open>
  These three definitions follow the specification's sentence on the severity score,
  not the code: a table of base constants, containment up to letter case, and the two
  additive boosts under a cap.  They are compared with \<open>calculate_severity\<close> below.
\<close>

definition base_severity_spec :: "string \<Rightarrow> real" where
  "base_severity_spec category =
     (if category = ''sql_injection'' then 0.90
      else if category = ''buffer_overflow'' then 0.95
      else if category = ''xss'' then 0.80
      else if category = ''hardcoded_secrets'' then 0.85
      else if category = ''race_condition'' then 0.70
      else 0.50)"

definition ci_contains :: "string \<Rightarrow> string \<Rightarrow> bool" where
  "ci_contains text word = (\<exists>pre mid post. text = pre @ mid @ post \<and> lower mid = lower word)"

definition severity_score_spec :: "string \<Rightarrow> string \<Rightarrow> real" where
  "severity_score_spec category text =
     min 1.0
       (base_severity_spec category
        + (if ci_contains text ''user'' \<or> ci_contains text ''input'' then 0.10 else 0)
        + (if ci_contains text ''admin'' \<or> ci_contains text ''root'' then 0.15 else 0))"

subsection \<open>The risk score in the words of the specification\<close>

definition count_severity :: "string \<Rightarrow> semgrep_finding list \<Rightarrow> nat" where
  "count_severity s rs = length (filter (\<lambda>r. reported_severity r = Some s) rs)"

definition clamp01 :: "real \<Rightarrow> real" where
  "clamp01 x = max 0 (min 1 x)"

definition risk_total_spec :: "semgrep_finding list \<Rightarrow> prediction list \<Rightarrow> real" where
  "risk_total_spec rs ai =
     (0.3 * real (count_severity ''ERROR'' rs)
      + 0.2 * real (count_severity ''WARNING'' rs)
      + 0.1 * real (count_severity ''INFO'' rs)
      + (\<Sum>p\<leftarrow>ai. p_severity p * p_confidence p)) / 10"

section \<open>The rules in scanning order\<close>

text \<open>The two rule tables flattened to the order in which the nested loops visit
  the patterns.\<close>

definition rule_order :: "(string \<times> pattern \<times> string) list" where
  "rule_order =
     concat (map (\<lambda>(vuln_type, pattern_list). map (\<lambda>pd. (vuln_type, pd)) pattern_list) patterns)"

definition pattern_order :: "(string \<times> regex) list" where
  "pattern_order =
     concat (map (\<lambda>(vuln_type, pats). map (\<lambda>pat. (vuln_type, pat)) pats) vulnerability_patterns)"

section \<open>Sample inputs\<close>




text \<open>The line \<^verbatim>\<open>password = "supersecretpw"\<close>.\<close>

definition secret_line :: string where
  "secret_line = ''password = '' @ [dquote] @ ''supersecretpw'' @ [dquote]"

text \<open>A finding the external tool reports with severity \<^verbatim>\<open>warning\<close> and no
  start position.\<close>

definition demo_warning :: semgrep_finding where
  "demo_warning = \<lparr>f_check_id = Some ''weak-cryptography'',
                    f_start = None,
                    f_extra = Some \<lparr>e_message = None, e_severity = Some ''warning'', e_lines = None\<rparr>\<rparr>"

text \<open>A platform on which the temporary file can be created and the YAML library is
  not installed.\<close>

definition demo_platform :: platform where
  "demo_platform = \<lparr>tmp_name = ''/tmp/tmpk3v9.yaml'',
                     tmp_create_ok = True,
                     yaml_import_ok = False,
                     yaml_dump_ok = True,
                     proc = Completed 0 (Object (Some []))\<rparr>"

section \<open>Properties\<close>

lemma split_nl_nonempty: "split_nl s \<noteq> []"
  by (induction s) (auto split: list.splits)

subsection \<open>The severity score\<close>

lemma str_in_iff: "str_in needle hay \<longleftrightarrow> (\<exists>pre post. hay = pre @ needle @ post)"
proof (induction hay)
  case Nil
  then show ?case by auto
next
  case (Cons c cs)
  show ?case
  proof
    assume "str_in needle (c # cs)"
    then consider "take (length needle) (c # cs) = needle" | "str_in needle cs" by auto
    then show "\<exists>pre post. c # cs = pre @ needle @ post"
    proof cases
      case 1
      then have "c # cs = [] @ needle @ drop (length needle) (c # cs)"
        by (metis append_Nil append_take_drop_id)
      then show ?thesis by blast
    next
      case 2
      with Cons.IH obtain pre post where "cs = pre @ needle @ post" by blast
      then have "c # cs = (c # pre) @ needle @ post" by simp
      then show ?thesis by blast
    qed
  next
    assume "\<exists>pre post. c # cs = pre @ needle @ post"
    then obtain pre post where eq: "c # cs = pre @ needle @ post" by blast
    show "str_in needle (c # cs)"
    proof (cases pre)
      case Nil
      with eq have "take (length needle) (c # cs) = needle" by simp
      then show ?thesis by simp
    next
      case (Cons d ds)
      with eq have "cs = ds @ needle @ post" by simp
      with Cons.IH have "str_in needle cs" by blast
      then show ?thesis by simp
    qed
  qed
qed

lemma lower_kw: "lower ''user'' = ''user''" "lower ''input'' = ''input''"
  "lower ''admin'' = ''admin''" "lower ''root'' = ''root''"
  by code_simp+

lemma map_eq_appendD:
  "map f xs = ys @ zs \<Longrightarrow> \<exists>us vs. xs = us @ vs \<and> map f us = ys \<and> map f vs = zs"
  by (rule exI [of _ "take (length ys) xs"], rule exI [of _ "drop (length ys) xs"])
     (metis append_eq_conv_conj append_take_drop_id drop_map take_map)

lemma str_in_lower_iff: "str_in (lower word) (lower text) \<longleftrightarrow> ci_contains text word"
proof
  assume "str_in (lower word) (lower text)"
  then obtain pre post where "lower text = pre @ lower word @ post"
    using str_in_iff [of "lower word" "lower text"] by blast
  then have "map lower_char text = pre @ (lower word @ post)"
    by (simp add: lower_def)
  from map_eq_appendD [OF this]
  obtain a bc where abc: "text = a @ bc" "map lower_char bc = lower word @ post"
    by blast
  from map_eq_appendD [OF abc(2)]
  obtain b c where bc: "bc = b @ c" "map lower_char b = lower word"
    by blast
  have "text = a @ b @ c" using abc(1) bc(1) by simp
  moreover have "lower b = lower word" using bc(2) by (simp add: lower_def)
  ultimately show "ci_contains text word"
    unfolding ci_contains_def by blast
next
  assume "ci_contains text word"
  then obtain pre mid post where t: "text = pre @ mid @ post" and m: "lower mid = lower word"
    unfolding ci_contains_def by blast
  have "lower text = lower pre @ lower mid @ lower post"
    unfolding t lower_def by simp
  then have "lower text = lower pre @ lower word @ lower post"
    using m by simp
  then show "str_in (lower word) (lower text)"
    using str_in_iff [of "lower word" "lower text"] by blast
qed

lemma base_severity_eq: "dict_get severity_weights category 0.5 = base_severity_spec category"
  by (simp add: dict_get_def severity_weights_def base_severity_spec_def)

text \<open>
  Claim C2.  For every category and every matched text, the severity score computed by
  \<open>calculate_severity\<close> is the base constant of the category (0.90 for sql_injection,
  0.95 for buffer_overflow, 0.80 for xss, 0.85 for hardcoded_secrets, 0.70 for
  race_condition, 0.50 for any other category), plus 0.10 when the text contains
  "user" or "input" in any letter case, plus 0.15 when it contains "admin" or "root"
  in any letter case, capped at 1.0.
\<close>

theorem calculate_severity_spec:
  "calculate_severity category matched = severity_score_spec category matched"
proof -
  have u: "str_in ''user'' (lower matched) = ci_contains matched ''user''"
    using str_in_lower_iff [of "''user''" matched] by (simp add: lower_kw)
  have i: "str_in ''input'' (lower matched) = ci_contains matched ''input''"
    using str_in_lower_iff [of "''input''" matched] by (simp add: lower_kw)
  have a: "str_in ''admin'' (lower matched) = ci_contains matched ''admin''"
    using str_in_lower_iff [of "''admin''" matched] by (simp add: lower_kw)
  have r: "str_in ''root'' (lower matched) = ci_contains matched ''root''"
    using str_in_lower_iff [of "''root''" matched] by (simp add: lower_kw)
  show ?thesis
    unfolding calculate_severity_def severity_score_spec_def Let_def u i a r base_severity_eq
    by (simp add: min_def)
qed

subsection \<open>Line counts\<close>

lemma filter_disjoint_le:
  "(\<And>x. \<not> (P x \<and> Q x)) \<Longrightarrow> length (filter P xs) + length (filter Q xs) \<le> length xs"
  by (induction xs) auto

text \<open>
  Claim C9.  For every input text the metrics satisfy
  code_lines + comment_lines \<le> total_lines: no line passes both the test for a code
  line (not blank and not starting with \<^verbatim>\<open>#\<close> after trimming) and the test for a
  comment line (starting with \<^verbatim>\<open>#\<close> after trimming).
\<close>

theorem code_comment_lines_bounded:
  "code_lines (analyze_code_complexity code) + comment_lines (analyze_code_complexity code)
     \<le> total_lines (analyze_code_complexity code)
   \<and> filter (\<lambda>line. (strip line \<noteq> [] \<and> \<not> startswith (strip line) ''#'')
                     \<and> startswith (strip line) ''#'') (split_nl code) = []"
proof
  show "code_lines (analyze_code_complexity code) + comment_lines (analyze_code_complexity code)
     \<le> total_lines (analyze_code_complexity code)"
    unfolding analyze_code_complexity_def Let_def
    by (simp add: filter_disjoint_le)
  show "filter (\<lambda>line. (strip line \<noteq> [] \<and> \<not> startswith (strip line) ''#'')
                     \<and> startswith (strip line) ''#'') (split_nl code) = []"
    by simp
qed


subsection \<open>The risk score\<close>

lemma ai_score_nonneg:
  "(\<And>p. p \<in> set ai \<Longrightarrow> 0 \<le> p_severity p \<and> 0 \<le> p_confidence p)
   \<Longrightarrow> 0 \<le> (\<Sum>p\<leftarrow>ai. p_severity p * p_confidence p)"
  by (induction ai) auto

lemma risk_score_capped: "generate_risk_score rs ai = min (risk_total_spec rs ai) 1"
  unfolding generate_risk_score_def risk_total_spec_def count_severity_def Let_def
  by (simp add: mult.commute)

lemma risk_total_nonneg:
  assumes "\<forall>p \<in> set ai. 0 \<le> p_severity p \<and> 0 \<le> p_confidence p"
  shows "0 \<le> risk_total_spec rs ai"
proof -
  have "0 \<le> (\<Sum>p\<leftarrow>ai. p_severity p * p_confidence p)"
    using assms by (intro ai_score_nonneg) blast
  then show ?thesis
    unfolding risk_total_spec_def by simp
qed




subsection \<open>The severity buckets of the built-in scanner\<close>




subsection \<open>Normalising the findings of the external tool\<close>

lemma upper_info: "upper ''INFO'' = ''INFO''"
  by code_simp

text \<open>
  Counterexample to claim C6 as stated.  A finding reported with severity
  \<^verbatim>\<open>warning\<close> is normalised to severity WARNING: the value is upper-cased and kept,
  not mapped to one of CRITICAL, HIGH, MEDIUM, LOW, INFO, and the histogram does not
  count it.
\<close>

theorem normalize_severity_counterexample:
  "v_severity (normalize_finding ''app.py'' demo_warning) = ''WARNING''
   \<and> ''WARNING'' \<notin> set severity_buckets
   \<and> categorize_vulnerabilities [normalize_finding ''app.py'' demo_warning]
       = [(''CRITICAL'', 0), (''HIGH'', 0), (''MEDIUM'', 0), (''LOW'', 0), (''INFO'', 0)]"
  by code_simp

text \<open>
  Claim C6, amended.  For every finding reported by the external tool, the normalised
  finding has its line set to the reported start line, or 0 when the start or its line
  is absent, and its severity set to the reported severity upper-cased, or INFO when
  the severity is absent; the upper-cased value is kept as it is.  A run that ends
  with return code 0 and a \<^verbatim>\<open>results\<close> list yields the normalised findings in order.
\<close>

theorem normalize_finding_line_severity:
  "v_line (normalize_finding file_path finding)
     = (case f_start finding of None \<Rightarrow> 0
        | Some st \<Rightarrow> (case s_line st of None \<Rightarrow> 0 | Some n \<Rightarrow> n))
   \<and> v_severity (normalize_finding file_path finding)
     = (case reported_severity finding of None \<Rightarrow> ''INFO'' | Some s \<Rightarrow> upper s)
   \<and> run_semgrep_analysis file_path (Completed 0 (Object (Some findings)))
     = map (normalize_finding file_path) findings"
proof (intro conjI)
  show "v_line (normalize_finding file_path finding)
     = (case f_start finding of None \<Rightarrow> 0
        | Some st \<Rightarrow> (case s_line st of None \<Rightarrow> 0 | Some n \<Rightarrow> n))"
    by (simp add: normalize_finding_def nested_get_def)
  show "v_severity (normalize_finding file_path finding)
     = (case reported_severity finding of None \<Rightarrow> ''INFO'' | Some s \<Rightarrow> upper s)"
    by (simp add: normalize_finding_def nested_get_def reported_severity_def upper_info
             split: option.splits)
  show "run_semgrep_analysis file_path (Completed 0 (Object (Some findings)))
     = map (normalize_finding file_path) findings"
    by (simp add: run_semgrep_analysis_def)
qed

text \<open>
  The histogram keeps its five keys, and a finding whose severity is none of them
  leaves every count as it was.
\<close>

lemma categorize_step_keys:
  "map fst (if v_severity vuln \<in> set (map fst categories)
            then map (\<lambda>(k, n). if k = v_severity vuln then (k, n + 1) else (k, n)) categories
            else categories) = map fst categories"
  by (induction categories) auto

lemma categorize_fold_keys:
  "map fst (foldl (\<lambda>categories vuln.
              if v_severity vuln \<in> set (map fst categories)
              then map (\<lambda>(k, n). if k = v_severity vuln then (k, n + 1) else (k, n)) categories
              else categories) init vs) = map fst init"
proof (induction vs arbitrary: init)
  case Nil
  show ?case by simp
next
  case (Cons v vs)
  show ?case
    unfolding foldl_Cons Cons.IH by (rule categorize_step_keys)
qed

lemma categorize_keys:
  "map fst (categorize_vulnerabilities vs) = severity_buckets"
  unfolding categorize_vulnerabilities_def categorize_fold_keys by (simp add: comp_def)

lemma categorize_skips_unknown:
  assumes "v_severity v \<notin> set severity_buckets"
  shows "categorize_vulnerabilities (vs @ [v]) = categorize_vulnerabilities vs"
proof -
  have "v_severity v \<notin> set (map fst (categorize_vulnerabilities vs))"
    using assms categorize_keys [of vs] by simp
  then show ?thesis
    unfolding categorize_vulnerabilities_def by simp
qed

subsection \<open>The adapter with custom rules\<close>

text \<open>
  Once the rules file has been written, the adapter returns a list and removes the
  file, and each failure of the run itself (the tool is missing or times out, a
  non-zero return code, output that does not decode) gives the empty list.
\<close>

lemma analyze_after_create:
  assumes "tmp_create_ok pf" "yaml_import_ok pf" "yaml_dump_ok pf"
  shows "\<exists>r. analyze_with_custom_rules pf file_path files = (Inr r, files - {tmp_name pf})"
  using assms
  by (simp add: analyze_with_custom_rules_def create_custom_rules_file_def Let_def)

lemma analyze_failure_modes:
  assumes "tmp_create_ok pf" "yaml_import_ok pf" "yaml_dump_ok pf"
    and "proc pf = ProcRaised e \<or> (\<exists>rc out. proc pf = Completed rc out \<and> rc \<noteq> 0)
         \<or> (\<exists>rc. proc pf = Completed rc NotJson)
         \<or> (\<exists>rc. proc pf = Completed rc NotAnObject)"
  shows "analyze_with_custom_rules pf file_path files = (Inr [], files - {tmp_name pf})"
  using assms
  by (auto simp add: analyze_with_custom_rules_def create_custom_rules_file_def Let_def)

text \<open>
  Claim C3 fails on the code.  The claim: for every file path the adapter never raises,
  every failure mode yields the empty list, and the temporary rules file is removed on
  every exit path.  The rules file is written before the \<^verbatim>\<open>try\<close> statement: on a
  platform where the temporary file is created and \<^verbatim>\<open>import yaml\<close> then fails, the
  exception leaves the adapter and the file stays behind.
\<close>

theorem analyze_raises_and_leaks:
  "analyze_with_custom_rules demo_platform ''app.py'' {}
     = (Inl ModuleNotFoundError, {''/tmp/tmpk3v9.yaml''})"
  by (simp add: analyze_with_custom_rules_def create_custom_rules_file_def demo_platform_def)

subsection \<open>The empty input\<close>

text \<open>
  Claim C8.  On the empty input string both scanners yield no finding, and the
  complexity analyzer yields total_lines = 1, cyclomatic_complexity = 1,
  nesting_depth = 0, function_count = 0 and class_count = 0 (with no code line and
  no comment line); none of the three functions can raise on it.
\<close>

theorem empty_input_degenerate:
  "predict_vulnerabilities [] language = []
   \<and> detect_vulnerabilities file_path (Some []) = []
   \<and> analyze_code_complexity []
       = \<lparr>total_lines = 1, code_lines = 0, comment_lines = 0, cyclomatic_complexity = 1,
          nesting_depth = 0, function_count = 0, class_count = 0\<rparr>"
proof (intro conjI)
  show "predict_vulnerabilities [] language = []"
    by code_simp
  show "detect_vulnerabilities file_path (Some []) = []"
    by code_simp
  show "analyze_code_complexity []
       = \<lparr>total_lines = 1, code_lines = 0, comment_lines = 0, cyclomatic_complexity = 1,
          nesting_depth = 0, function_count = 0, class_count = 0\<rparr>"
    by code_simp
qed

subsection \<open>Line numbers and the order of findings\<close>

lemma count_nl_take_mono: "j \<le> k \<Longrightarrow> count_nl (take j s) \<le> count_nl (take k s)"
proof -
  assume "j \<le> k"
  then have "take j s = take j (take k s)" by (simp add: min_def)
  then have "take k s = take j s @ drop j (take k s)"
    by (metis append_take_drop_id)
  then have "count_nl (take k s) = count_nl (take j s) + count_nl (drop j (take k s))"
    unfolding count_nl_def by (metis filter_append length_append)
  then show ?thesis by simp
qed

lemma count_nl_take_le: "count_nl (take j s) \<le> count_nl s"
proof -
  have "s = take j s @ drop j s" by simp
  then have "count_nl s = count_nl (take j s) + count_nl (drop j s)"
    unfolding count_nl_def by (metis filter_append length_append)
  then show ?thesis by simp
qed

lemma length_split_nl: "length (split_nl s) = count_nl s + 1"
proof (induction s)
  case Nil
  show ?case by (simp add: count_nl_def)
next
  case (Cons c cs)
  then show ?case
    by (cases "split_nl cs") (auto simp: count_nl_def)
qed

lemma finditer_from_lower:
  "x \<in> set (finditer_from pat i k p s) \<Longrightarrow> i \<le> fst x"
proof (induction s arbitrary: i k p)
  case Nil
  then show ?case by (auto split: if_splits)
next
  case (Cons c cs)
  show ?case
  proof (cases "0 < k")
    case True
    with Cons.prems have "x \<in> set (finditer_from pat (Suc i) (k - 1) (Some c) cs)" by simp
    from Cons.IH [OF this] show ?thesis by simp
  next
    case False
    show ?thesis
    proof (cases "mt (fst pat) (snd pat) (p, c # cs)")
      case Nil
      with False Cons.prems have "x \<in> set (finditer_from pat (Suc i) 0 (Some c) cs)" by simp
      from Cons.IH [OF this] show ?thesis by simp
    next
      case (Cons st sts)
      with False Cons.prems
      have "fst x = i \<or> x \<in> set (finditer_from pat (Suc i)
               (length (c # cs) - length (snd st) - 1) (Some c) cs)"
        by (auto simp: Let_def)
      then show ?thesis
      proof
        assume "fst x = i" then show ?thesis by simp
      next
        assume "x \<in> set (finditer_from pat (Suc i)
               (length (c # cs) - length (snd st) - 1) (Some c) cs)"
        from Cons.IH [OF this] show ?thesis by simp
      qed
    qed
  qed
qed

lemma finditer_from_sorted:
  "sorted_wrt (<) (map fst (finditer_from pat i k p s))"
proof (induction s arbitrary: i k p)
  case Nil
  show ?case by simp
next
  case (Cons c cs)
  show ?case
  proof (cases "0 < k")
    case True
    then show ?thesis using Cons.IH by simp
  next
    case False
    show ?thesis
    proof (cases "mt (fst pat) (snd pat) (p, c # cs)")
      case Nil
      with False show ?thesis using Cons.IH by simp
    next
      case (Cons st sts)
      have later: "\<forall>x \<in> set (finditer_from pat (Suc i)
               (length (c # cs) - length (snd st) - 1) (Some c) cs). i < fst x"
        using finditer_from_lower by fastforce
      with False Cons show ?thesis
        using Cons.IH [of "Suc i" "length (c # cs) - length (snd st) - 1" "Some c"]
        by (auto simp: Let_def)
    qed
  qed
qed

lemma sorted_wrt_map_mono:
  "sorted_wrt (<) xs \<Longrightarrow> (\<And>a b. a < b \<Longrightarrow> f a \<le> f b) \<Longrightarrow> sorted (map f xs)"
  by (induction xs) auto

lemma predict_pattern_sorted: "sorted (map p_line (predict_pattern code vuln_type pat))"
proof -
  have lines: "map p_line (predict_pattern code vuln_type pat)
          = map (\<lambda>j. count_nl (take j code) + 1) (map fst (finditer (True, pat) code))"
    by (simp add: predict_pattern_def make_prediction_def comp_def)
  have "sorted_wrt (<) (map fst (finditer (True, pat) code))"
    unfolding finditer_def by (rule finditer_from_sorted)
  then have "sorted (map (\<lambda>j. count_nl (take j code) + 1) (map fst (finditer (True, pat) code)))"
    by (rule sorted_wrt_map_mono) (simp add: count_nl_take_mono)
  with lines show ?thesis by simp
qed

lemma enumerate1_sorted: "sorted_wrt (<) (map fst (enumerate1 xs))"
proof -
  have "length [1 ..< Suc (length xs)] = Suc (length xs) - 1" by (rule length_upt)
  then have "length [1 ..< Suc (length xs)] = length xs" by (simp only: diff_Suc_1)
  then have "map fst (enumerate1 xs) = [1 ..< Suc (length xs)]"
    unfolding enumerate1_def by (rule map_fst_zip)
  then show ?thesis
    using sorted_wrt_upt [of 1 "Suc (length xs)"] by metis
qed

lemma scan_lines_sorted:
  "sorted_wrt (<) (map v_line (scan_lines file_path vuln_type pd lines))"
proof -
  let ?hits = "filter (\<lambda>(line_num, line). re_search (fst pd) line) (enumerate1 lines)"
  have "map v_line (scan_lines file_path vuln_type pd lines) = map (\<lambda>x. int (fst x)) ?hits"
    by (simp add: scan_lines_def comp_def case_prod_beta)
  moreover have "sorted_wrt (\<lambda>x y. fst x < fst y) (enumerate1 lines)"
    using enumerate1_sorted [of lines] by (simp add: sorted_wrt_map)
  then have "sorted_wrt (\<lambda>x y. fst x < fst y) ?hits"
    by (rule sorted_wrt_filter)
  then have "sorted_wrt (<) (map (\<lambda>x. int (fst x)) ?hits)"
    by (simp add: sorted_wrt_map)
  ultimately show ?thesis by simp
qed

lemma concat_map_flatten:
  "concat (map (\<lambda>(a, bs). concat (map (g a) bs)) tbl)
     = concat (map (\<lambda>(a, b). g a b) (concat (map (\<lambda>(a, bs). map (\<lambda>b. (a, b)) bs) tbl)))"
  by (induction tbl) (auto simp: comp_def)

text \<open>
  Counterexample to claim C4 as stated.  On the two lines \<^verbatim>\<open>RC4\<close> and \<^verbatim>\<open>../\<close> the
  built-in scanner reports line 2 before line 1, and on the two lines
  \<^verbatim>\<open>threading.\<close> and \<^verbatim>\<open>strcpy(\<close> so does the heuristic predictor: the findings
  follow the order of the rule table, not the order of the lines.
\<close>

theorem line_order_counterexample:
  "map v_line (detect_vulnerabilities ''app.py'' (Some ''RC4\<newline>../'')) = [2, 1]
   \<and> map p_line (predict_vulnerabilities ''threading.\<newline>strcpy('' ''python'') = [2, 1]"
  by code_simp

text \<open>
  Claim C4, amended.  Each scanner is a function of the text, so scanning the same
  text twice yields identical sequences.  The sequence is the concatenation, in the
  order of the rule table (category by category, pattern by pattern), of one block per
  pattern; within the block of one pattern the line numbers ascend (strictly for the
  built-in scanner, weakly for the heuristic predictor, which may match twice on a
  line).  Across blocks the line numbers are not ordered.
\<close>

theorem findings_ordered_by_rule_then_line:
  "detect_vulnerabilities file_path (Some text)
     = concat (map (\<lambda>(vuln_type, pd). scan_lines file_path vuln_type pd (split_nl text)) rule_order)
   \<and> sorted_wrt (<) (map v_line (scan_lines file_path vuln_type pd lines))
   \<and> predict_vulnerabilities code language
     = concat (map (\<lambda>(vuln_type, pat). predict_pattern code vuln_type pat) pattern_order)
   \<and> sorted (map p_line (predict_pattern code vuln_type pat))"
proof (intro conjI)
  show "detect_vulnerabilities file_path (Some text)
     = concat (map (\<lambda>(vuln_type, pd). scan_lines file_path vuln_type pd (split_nl text)) rule_order)"
    unfolding detect_vulnerabilities_def rule_order_def Let_def
    using concat_map_flatten [of "\<lambda>vuln_type pd. scan_lines file_path vuln_type pd (split_nl text)" patterns]
    by simp
  show "sorted_wrt (<) (map v_line (scan_lines file_path vuln_type pd lines))"
    by (rule scan_lines_sorted)
  show "predict_vulnerabilities code language
     = concat (map (\<lambda>(vuln_type, pat). predict_pattern code vuln_type pat) pattern_order)"
    unfolding predict_vulnerabilities_def pattern_order_def
    using concat_map_flatten [of "predict_pattern code" vulnerability_patterns]
    by simp
  show "sorted (map p_line (predict_pattern code vuln_type pat))"
    by (rule predict_pattern_sorted)
qed

text \<open>
  Claim C10.  For every input text, every prediction of the heuristic predictor has a
  line number of at least 1 and at most the number of lines of the input, which is the
  number of line breaks plus 1.
\<close>

theorem prediction_line_in_range:
  "(\<forall>p \<in> set (predict_vulnerabilities code language).
       1 \<le> p_line p \<and> p_line p \<le> total_lines (analyze_code_complexity code))
   \<and> total_lines (analyze_code_complexity code) = count_nl code + 1"
proof
  show total: "total_lines (analyze_code_complexity code) = count_nl code + 1"
    by (simp add: analyze_code_complexity_def Let_def length_split_nl)
  show "\<forall>p \<in> set (predict_vulnerabilities code language).
       1 \<le> p_line p \<and> p_line p \<le> total_lines (analyze_code_complexity code)"
  proof
    fix p assume "p \<in> set (predict_vulnerabilities code language)"
    then obtain vuln_type m where "p = make_prediction code vuln_type m"
      unfolding predict_vulnerabilities_def predict_pattern_def by auto
    then have "p_line p = count_nl (take (fst m) code) + 1"
      by (simp add: make_prediction_def)
    then show "1 \<le> p_line p \<and> p_line p \<le> total_lines (analyze_code_complexity code)"
      using count_nl_take_le [of "fst m" code] total by simp
  qed
qed

lemma strcpy_prediction: "map p_line (predict_vulnerabilities ''a\<newline>strcpy('' ''c'') = [2]"
  by code_simp

theorem prediction_line_in_range_witness:
  "predict_vulnerabilities ''a\<newline>strcpy('' ''c'' \<noteq> []
   \<and> p_line (hd (predict_vulnerabilities ''a\<newline>strcpy('' ''c'')) = 2
   \<and> total_lines (analyze_code_complexity ''a\<newline>strcpy('') = 2"
proof -
  let ?ps = "predict_vulnerabilities ''a\<newline>strcpy('' ''c''"
  have ne: "?ps \<noteq> []" using strcpy_prediction by auto
  then have mem: "hd ?ps \<in> set ?ps" by simp
  have two: "p_line (hd ?ps) = 2"
    using strcpy_prediction ne by (cases ?ps) auto
  have "count_nl ''a\<newline>strcpy('' = 1" by code_simp
  with prediction_line_in_range [of "''a\<newline>strcpy(''" "''c''"] mem ne two
  show ?thesis by simp
qed

subsection \<open>The scores of a prediction\<close>

lemma prediction_fields:
  assumes "p \<in> set (predict_vulnerabilities code language)"
  shows "p_severity p = calculate_severity (p_type p) (p_match p)"
    and "p_confidence p = calculate_confidence (p_type p) (p_match p)"
    and "p_suggestion p = get_fix_suggestion (p_type p)"
proof -
  from assms obtain vuln_type m where "p = make_prediction code vuln_type m"
    unfolding predict_vulnerabilities_def predict_pattern_def by auto
  then show "p_severity p = calculate_severity (p_type p) (p_match p)"
    and "p_confidence p = calculate_confidence (p_type p) (p_match p)"
    and "p_suggestion p = get_fix_suggestion (p_type p)"
    by (simp_all add: make_prediction_def)
qed

text \<open>
  Every prediction of the predictor has both scores in [0,1], so the risk score of
  its output is the clamped quotient with no further condition.
\<close>

lemma calculate_severity_range:
  "1 / 2 \<le> calculate_severity vuln_type matched \<and> calculate_severity vuln_type matched \<le> 1"
  unfolding calculate_severity_def Let_def base_severity_eq
  by (simp add: base_severity_spec_def)

lemma calculate_confidence_range:
  "1 / 2 \<le> calculate_confidence vuln_type matched \<and> calculate_confidence vuln_type matched \<le> 9 / 10"
  by (simp add: calculate_confidence_def dict_get_def confidence_map_def)

lemma prediction_scores_in_unit:
  assumes "p \<in> set (predict_vulnerabilities code language)"
  shows "0 \<le> p_severity p \<and> p_severity p \<le> 1 \<and> 0 \<le> p_confidence p \<and> p_confidence p \<le> 1"
proof -
  have "1 / 2 \<le> p_severity p \<and> p_severity p \<le> 1"
    using prediction_fields(1) [OF assms] calculate_severity_range by simp
  moreover have "1 / 2 \<le> p_confidence p \<and> p_confidence p \<le> 9 / 10"
    using prediction_fields(2) [OF assms] calculate_confidence_range by simp
  ultimately show ?thesis by simp
qed

lemma risk_score_of_predictions:
  "generate_risk_score rs (predict_vulnerabilities code language)
     = clamp01 (risk_total_spec rs (predict_vulnerabilities code language))"
proof -
  have "\<forall>p \<in> set (predict_vulnerabilities code language). 0 \<le> p_severity p \<and> 0 \<le> p_confidence p"
    using prediction_scores_in_unit by blast
  then have "0 \<le> risk_total_spec rs (predict_vulnerabilities code language)"
    by (rule risk_total_nonneg)
  then show ?thesis
    unfolding clamp01_def risk_score_capped by (simp add: min.commute max_def)
qed

subsection \<open>The hard-coded password example\<close>

lemma secret_shape:
  "map (\<lambda>p. (p_type p, p_line p, p_match p)) (predict_vulnerabilities secret_line language)
     = [(''hardcoded_secrets'', 1, secret_line)]"
  by code_simp

lemma secret_keywords:
  "\<not> str_in ''user'' (lower secret_line)" "\<not> str_in ''input'' (lower secret_line)"
  "\<not> str_in ''admin'' (lower secret_line)" "\<not> str_in ''root'' (lower secret_line)"
  by code_simp+

lemma secret_builtin:
  "map (\<lambda>v. (v_type v, v_line v, v_severity v))
          (detect_vulnerabilities file_path (Some secret_line))
     = [(''Hardcoded Credentials'', 1, ''CRITICAL'')]"
  by code_simp


lemma secret_severity: "calculate_severity ''hardcoded_secrets'' secret_line = 0.85"
  using secret_keywords
  by (simp add: calculate_severity_def dict_get_def severity_weights_def)

lemma hardcoded_confidence: "calculate_confidence ''hardcoded_secrets'' matched = 0.9"
  by (simp add: calculate_confidence_def dict_get_def confidence_map_def)

lemma hardcoded_suggestion:
  "get_fix_suggestion ''hardcoded_secrets''
     = ''Move secrets to environment variables or secure configuration files''"
  by (simp add: get_fix_suggestion_def dict_get_def suggestions_def)

text \<open>
  Counterexample to claim C7 as stated.  The only scanner that attaches a severity
  bucket is the built-in one; on the line \<^verbatim>\<open>password = "supersecretpw"\<close> none of its
  findings has the category hardcoded_secrets, and its bucket table does not map
  that category to CRITICAL.
\<close>

theorem secret_line_bucket_counterexample:
  "\<not> (\<exists>v \<in> set (detect_vulnerabilities ''app.py'' (Some secret_line)).
         v_type v = ''hardcoded_secrets'')
   \<and> get_severity ''hardcoded_secrets'' \<noteq> ''CRITICAL''"
proof
  from secret_builtin [of "''app.py''"] obtain v where
    one: "detect_vulnerabilities ''app.py'' (Some secret_line) = [v]"
    and ty: "v_type v = ''Hardcoded Credentials''"
    by auto
  show "\<not> (\<exists>v \<in> set (detect_vulnerabilities ''app.py'' (Some secret_line)).
         v_type v = ''hardcoded_secrets'')"
    unfolding one using ty by simp
  show "get_severity ''hardcoded_secrets'' \<noteq> ''CRITICAL''"
    by (simp add: get_severity_def critical_types_def high_types_def medium_types_def)
qed

text \<open>
  Claim C7, amended.  On the input line \<^verbatim>\<open>password = "supersecretpw"\<close> the heuristic
  predictor produces exactly one prediction: category hardcoded_secrets, line 1,
  severity score 0.85, confidence score 0.90, the whole line as matched text; the
  confidence score is the constant of the category whatever the matched text.  A
  prediction carries no severity bucket.  On the same line the built-in scanner
  produces one finding, of category Hardcoded Credentials and bucket CRITICAL.
\<close>

theorem secret_line_findings:
  "predict_vulnerabilities secret_line language
     = [\<lparr>p_type = ''hardcoded_secrets'', p_line = 1, p_severity = 0.85, p_confidence = 0.9,
         p_suggestion = ''Move secrets to environment variables or secure configuration files'',
         p_match = secret_line\<rparr>]
   \<and> calculate_confidence ''hardcoded_secrets'' matched = 0.9
   \<and> map (\<lambda>v. (v_type v, v_line v, v_severity v))
          (detect_vulnerabilities file_path (Some secret_line))
     = [(''Hardcoded Credentials'', 1, ''CRITICAL'')]"
proof (intro conjI)
  from secret_shape [of language] obtain p where
    one: "predict_vulnerabilities secret_line language = [p]"
    and shape: "p_type p = ''hardcoded_secrets''" "p_line p = 1" "p_match p = secret_line"
    by auto
  then have mem: "p \<in> set (predict_vulnerabilities secret_line language)" by simp
  have "p_severity p = 0.85" "p_confidence p = 0.9"
       "p_suggestion p = ''Move secrets to environment variables or secure configuration files''"
    using prediction_fields [OF mem] shape
    by (simp_all add: secret_severity hardcoded_confidence hardcoded_suggestion)
  with shape have "p = \<lparr>p_type = ''hardcoded_secrets'', p_line = 1, p_severity = 0.85,
         p_confidence = 0.9,
         p_suggestion = ''Move secrets to environment variables or secure configuration files'',
         p_match = secret_line\<rparr>"
    by (intro prediction.equality) simp_all
  with one show "predict_vulnerabilities secret_line language
     = [\<lparr>p_type = ''hardcoded_secrets'', p_line = 1, p_severity = 0.85, p_confidence = 0.9,
         p_suggestion = ''Move secrets to environment variables or secure configuration files'',
         p_match = secret_line\<rparr>]"
    by simp
  show "calculate_confidence ''hardcoded_secrets'' matched = 0.9"
    by (rule hardcoded_confidence)
  show "map (\<lambda>v. (v_type v, v_line v, v_severity v))
          (detect_vulnerabilities file_path (Some secret_line))
     = [(''Hardcoded Credentials'', 1, ''CRITICAL'')]"
    by (rule secret_builtin)
qed

end
